theory Spec2Isabelle
  imports Main "HOL-Library.AList"
begin

section \<open>Values of the model\<close>

text \<open>
  \<open>createModel<T>\<close> is generic in the Model Value. The code inspects a value in three
  ways only: its truthiness (\<open>!data\<close>, \<open>if (loadedData)\<close>, \<open>if (l)\<close>), its own enumerable
  keys (\<open>Object.keys(mutation)\<close>, \<open>mutation[k]\<close>) and the \<open>in\<close> operator with assignment
  (\<open>k in v\<close>, \<open>v[k] = ...\<close>). The values below are the primitives and the plain objects,
  with these three readings. Numbers are integers plus \<open>NaN\<close>: of a number the code only
  asks whether it is falsy.

  A plain object \<open>JObj ps\<close> is an extensible object whose prototype is
  \<open>Object.prototype\<close>; \<open>ps\<close> are its own properties, all enumerable data properties, in
  the order of \<open>Object.keys\<close> (array indices ascending, then the other keys as created).
  \<open>JObjWithProto p ps\<close> is such an object after its prototype has been replaced by \<open>p\<close>
  (an object, or \<open>null\<close>), which the setter of \<open>__proto__\<close> does. An own key \<open>__proto__\<close>
  is an ordinary own property, as \<open>JSON.parse\<close> creates it. Arrays, functions and other
  exotic objects are not values of this datatype. Values carry no identity: an object
  and a copy of it are the same value.
\<close>

datatype jsval =
    JUndefined
  | JNull
  | JBool bool
  | JNum int
  | JNaN
  | JStr string
  | JObj "(string \<times> jsval) list"
  | JObjWithProto jsval "(string \<times> jsval) list"

text \<open>JavaScript's \<open>ToBoolean\<close>: an empty object is truthy.\<close>

fun truthy :: "jsval \<Rightarrow> bool" where
  "truthy JUndefined = False"
| "truthy JNull = False"
| "truthy (JBool b) = b"
| "truthy (JNum n) = (n \<noteq> 0)"
| "truthy JNaN = False"
| "truthy (JStr s) = (s \<noteq> [])"
| "truthy (JObj ps) = True"
| "truthy (JObjWithProto p ps) = True"

datatype error = TypeError

text \<open>Decimal rendering of an index, for the keys of a string.\<close>

fun show_nat :: "nat \<Rightarrow> string" where
  "show_nat n =
     (if n < 10 then [''0123456789'' ! n]
      else show_nat (n div 10) @ [''0123456789'' ! (n mod 10)])"

text \<open>
  \<open>Object.keys(mutation)\<close> paired with \<open>mutation[k]\<close> for each key: \<open>undefined\<close> and
  \<open>null\<close> cannot be converted to an object, a string has its indices as keys, every
  other primitive has no own enumerable key.
\<close>

fun own_entries :: "jsval \<Rightarrow> error + (string \<times> jsval) list" where
  "own_entries JUndefined = Inl TypeError"
| "own_entries JNull = Inl TypeError"
| "own_entries (JStr s) = Inr (zip (map show_nat [0..<length s]) (map (\<lambda>c. JStr [c]) s))"
| "own_entries (JObj ps) = Inr ps"
| "own_entries (JObjWithProto p ps) = Inr ps"
| "own_entries v = Inr []"

fun is_object :: "jsval \<Rightarrow> bool" where
  "is_object (JObj ps) = True"
| "is_object (JObjWithProto p ps) = True"
| "is_object v = False"

fun own_props :: "jsval \<Rightarrow> (string \<times> jsval) list" where
  "own_props (JObj ps) = ps"
| "own_props (JObjWithProto p ps) = ps"
| "own_props v = []"

fun with_props :: "jsval \<Rightarrow> (string \<times> jsval) list \<Rightarrow> jsval" where
  "with_props (JObjWithProto p ps) qs = JObjWithProto p qs"
| "with_props v qs = JObj qs"

text \<open>
  The members of \<open>Object.prototype\<close> other than \<open>__proto__\<close>: writable data properties,
  none of them enumerable. \<open>__proto__\<close> is an accessor there.
\<close>

definition Object_prototype_methods :: "string list" where
  "Object_prototype_methods =
     [''constructor'', ''__defineGetter__'', ''__defineSetter__'', ''hasOwnProperty'',
      ''__lookupGetter__'', ''__lookupSetter__'', ''isPrototypeOf'', ''propertyIsEnumerable'',
      ''toString'', ''valueOf'', ''toLocaleString'']"

text \<open>
  What a property name finds on an object: an own property first, then the prototype
  chain. A \<open>null\<close> prototype ends the chain.
\<close>

datatype member = Absent | DataProperty | ProtoAccessor

fun find_member :: "string \<Rightarrow> jsval \<Rightarrow> member" where
  "find_member k (JObj ps) =
     (if k \<in> set (map fst ps) then DataProperty
      else if k = ''__proto__'' then ProtoAccessor
      else if k \<in> set Object_prototype_methods then DataProperty
      else Absent)"
| "find_member k (JObjWithProto p ps) =
     (if k \<in> set (map fst ps) then DataProperty else find_member k p)"
| "find_member k v = Absent"

text \<open>
  \<open>k in v\<close>: a \<open>TypeError\<close> unless \<open>v\<close> is an object; on an object, true for an own
  property and for a member inherited through the prototype chain.
\<close>

definition has_property :: "string \<Rightarrow> jsval \<Rightarrow> error + bool" where
  "has_property k v =
     (if is_object v then Inr (find_member k v = DataProperty \<or> find_member k v = ProtoAccessor)
      else Inl TypeError)"

text \<open>
  An array index is the canonical decimal form of a number below \<open>2^32 - 1\<close>. A new own
  property with such a key takes its place among the indices; any other new key goes
  last.
\<close>

definition digit_value :: "char \<Rightarrow> nat option" where
  "digit_value c = map_of (zip ''0123456789'' [0, 1, 2, 3, 4, 5, 6, 7, 8, 9]) c"

fun parse_digits :: "string \<Rightarrow> nat \<Rightarrow> nat option" where
  "parse_digits [] n = Some n"
| "parse_digits (c # cs) n =
     (case digit_value c of None \<Rightarrow> None | Some d \<Rightarrow> parse_digits cs (10 * n + d))"

definition array_index :: "string \<Rightarrow> nat option" where
  "array_index k =
     (case k of
        [] \<Rightarrow> None
      | c # cs \<Rightarrow>
          if c = CHR ''0'' \<and> cs \<noteq> [] then None
          else (case parse_digits k 0 of
                  None \<Rightarrow> None
                | Some n \<Rightarrow> if n < 4294967295 then Some n else None))"

fun insert_index ::
  "nat \<Rightarrow> string \<times> jsval \<Rightarrow> (string \<times> jsval) list \<Rightarrow> (string \<times> jsval) list" where
  "insert_index i e [] = [e]"
| "insert_index i e (q # ps) =
     (case array_index (fst q) of
        Some j \<Rightarrow> if j < i then q # insert_index i e ps else e # q # ps
      | None \<Rightarrow> e # q # ps)"

definition put_own :: "string \<Rightarrow> jsval \<Rightarrow> (string \<times> jsval) list \<Rightarrow> (string \<times> jsval) list" where
  "put_own k x ps =
     (if k \<in> set (map fst ps) then AList.update k x ps
      else (case array_index k of
              Some i \<Rightarrow> insert_index i (k, x) ps
            | None \<Rightarrow> ps @ [(k, x)]))"

text \<open>
  \<open>v[k] = x\<close> in strict code: a \<open>TypeError\<close> unless \<open>v\<close> is an object. An own property is
  overwritten in place. A name that finds a data property up the chain, or nothing,
  becomes a new own property. A name that finds the accessor \<open>__proto__\<close> calls its
  setter: an object or \<open>null\<close> becomes the prototype, any other value is ignored.
\<close>

definition set_property :: "string \<Rightarrow> jsval \<Rightarrow> jsval \<Rightarrow> error + jsval" where
  "set_property k x v =
     (if is_object v then
        (if find_member k v = ProtoAccessor
         then Inr (if is_object x \<or> x = JNull then JObjWithProto x (own_props v) else v)
         else Inr (with_props v (put_own k x (own_props v))))
      else Inl TypeError)"

section \<open>The container's state\<close>

text \<open>
  Everything observable of a run is kept in one trace, in the order it happens: a value
  delivered to a subscriber, a call of the save or load adapter, a line written with
  \<open>console.warn\<close> or \<open>console.trace\<close>.
\<close>

datatype event =
    Notify nat jsval
  | Saved jsval
  | LoadCalled
  | Warn string
  | ConsoleTrace string

text \<open>The promise \<open>INITIALIZED\<close>: pending on a load that will deliver a value, or settled.\<close>

datatype readiness = NotStarted | Loading jsval | Ready jsval | Failed

record model_state =
  val :: jsval
  subscribers :: "nat list"
  trace :: "event list"
  loads :: nat
  initialized :: readiness

datatype save_result = OpError string | OpResult

text \<open>
  \<open>ModelOptions<T>\<close>: every field is optional. The save function's promise is never
  looked at by the container, so \<open>saveFn\<close> is the function from the value to its outcome.
  \<open>loadFn\<close> gives, for the number of earlier calls, the value its promise resolves to.
  \<open>mutateFn\<close> and \<open>onInitialized\<close> are caller code with effects of their own.
\<close>

record ModelOptions =
  allowUndefinedData :: "bool option"
  loadOnCreate :: "bool option"
  saveFn :: "(jsval \<Rightarrow> save_result) option"
  loadFn :: "(nat \<Rightarrow> jsval) option"
  mutateFn :: "(jsval \<Rightarrow> model_state \<Rightarrow> model_state) option"
  onInitialized :: "(jsval \<Rightarrow> model_state \<Rightarrow> model_state) option"

definition DEFAULT_OPTS :: ModelOptions where
  "DEFAULT_OPTS =
     \<lparr>allowUndefinedData = Some False, loadOnCreate = Some True, saveFn = None,
      loadFn = None, mutateFn = None, onInitialized = None\<rparr>"

text \<open>Object spread \<open>{ ...a, ...b }\<close>: a key of \<open>b\<close> replaces the same key of \<open>a\<close>.\<close>

definition later_wins :: "'a option \<Rightarrow> 'a option \<Rightarrow> 'a option" where
  "later_wins x y = (case y of None \<Rightarrow> x | Some v \<Rightarrow> Some v)"

definition spread :: "ModelOptions \<Rightarrow> ModelOptions \<Rightarrow> ModelOptions" where
  "spread a b =
     \<lparr>allowUndefinedData = later_wins (allowUndefinedData a) (allowUndefinedData b),
      loadOnCreate = later_wins (loadOnCreate a) (loadOnCreate b),
      saveFn = later_wins (saveFn a) (saveFn b),
      loadFn = later_wins (loadFn a) (loadFn b),
      mutateFn = later_wins (mutateFn a) (mutateFn b),
      onInitialized = later_wins (onInitialized a) (onInitialized b)\<rparr>"

text \<open>\<open>let opts = options ? { ...options, ...DEFAULT_OPTS } : DEFAULT_OPTS\<close>\<close>

definition merge_opts :: "ModelOptions option \<Rightarrow> ModelOptions" where
  "merge_opts options =
     (case options of Some given \<Rightarrow> spread given DEFAULT_OPTS | None \<Rightarrow> DEFAULT_OPTS)"

text \<open>The truthiness of an optional boolean option.\<close>

definition flag_on :: "bool option \<Rightarrow> bool" where
  "flag_on f = (f = Some True)"

section \<open>The observable primitive\<close>

text \<open>
  Modelled from the spec: the store returned by \<open>writable\<close> is imported from
  \<open>svelte/store\<close> and is not part of this repository. The spec describes it as a cell
  with \<open>subscribe\<close>, \<open>set\<close> and a way to read the current value, notifying
  synchronously, in insertion order, and delivering the current value to a new
  subscriber at once. The spec leaves open whether setting a value that the cell already
  holds publishes again, so that test is the parameter \<open>differs\<close> of \<open>writable_set\<close>.
\<close>

definition writable :: model_state where
  "writable =
     \<lparr>val = JUndefined, subscribers = [], trace = [], loads = 0, initialized = NotStarted\<rparr>"

definition writable_set :: "(jsval \<Rightarrow> jsval \<Rightarrow> bool) \<Rightarrow> jsval \<Rightarrow> model_state \<Rightarrow> model_state" where
  "writable_set differs new_value s =
     (if differs (val s) new_value
      then s\<lparr>val := new_value,
             trace := trace s @ map (\<lambda>i. Notify i new_value) (subscribers s)\<rparr>
      else s)"

text \<open>
  \<open>update(fn)\<close> hands the current value to the callback and sets what it returns. The
  callback runs first, with its own effects, and may throw; then nothing is set.
\<close>

definition writable_update ::
  "(jsval \<Rightarrow> jsval \<Rightarrow> bool) \<Rightarrow> (jsval \<Rightarrow> model_state \<Rightarrow> (error + jsval) \<times> model_state)
     \<Rightarrow> model_state \<Rightarrow> error option \<times> model_state" where
  "writable_update differs fn s =
     (case fn (val s) s of
        (Inl e, s') \<Rightarrow> (Some e, s')
      | (Inr new_value, s') \<Rightarrow> (None, writable_set differs new_value s'))"

definition subscribe :: "nat \<Rightarrow> model_state \<Rightarrow> model_state" where
  "subscribe i s = s\<lparr>subscribers := subscribers s @ [i], trace := trace s @ [Notify i (val s)]\<rparr>"

definition unsubscribe :: "nat \<Rightarrow> model_state \<Rightarrow> model_state" where
  "unsubscribe i s = s\<lparr>subscribers := removeAll i (subscribers s)\<rparr>"

text \<open>Two tests the parameter ranges over: publish on every set, or only on a change.\<close>

definition always_publish :: "jsval \<Rightarrow> jsval \<Rightarrow> bool" where
  "always_publish a b = True"

definition publish_changes :: "jsval \<Rightarrow> jsval \<Rightarrow> bool" where
  "publish_changes a b = (a \<noteq> b)"

section \<open>The container\<close>

definition console_warn :: "string \<Rightarrow> model_state \<Rightarrow> model_state" where
  "console_warn msg s = s\<lparr>trace := trace s @ [Warn msg]\<rparr>"

definition console_trace :: "string \<Rightarrow> model_state \<Rightarrow> model_state" where
  "console_trace msg s = s\<lparr>trace := trace s @ [ConsoleTrace msg]\<rparr>"

definition no_loadFn_msg :: string where
  "no_loadFn_msg =
     ''[MODEL] Trying to load model data without a 'loadFn' option!''"

definition undefined_data_msg :: string where
  "undefined_data_msg =
     ''[MODEL] Trying to set undefined data without 'allowUndefinedData = true' option!''"

definition unknown_key_msg :: "string \<Rightarrow> string" where
  "unknown_key_msg k =
     ''[MODEL] Trying to mutate model with unknown key '' @ [CHR 0x27] @ k @ [CHR 0x27] @ ''!''"

text \<open>\<open>if (opts.saveFn) opts.saveFn(v)\<close>: the call is recorded, its outcome dropped.\<close>

definition call_saveFn :: "ModelOptions \<Rightarrow> jsval \<Rightarrow> model_state \<Rightarrow> model_state" where
  "call_saveFn opts v s =
     (case saveFn opts of
        None \<Rightarrow> s
      | Some save \<Rightarrow> (let outcome = save v in s\<lparr>trace := trace s @ [Saved v]\<rparr>))"

subsection \<open>cLoad\<close>

text \<open>
  \<open>cLoad\<close> is asynchronous. Up to its \<open>await\<close> it either returns \<open>undefined\<close> with a
  warning or has called the load function; the rest runs when that promise resolves.
\<close>

datatype load_phase = Returned jsval | Awaiting jsval

definition cLoad_call :: "ModelOptions \<Rightarrow> model_state \<Rightarrow> load_phase \<times> model_state" where
  "cLoad_call opts s =
     (case loadFn opts of
        None \<Rightarrow> (Returned JUndefined, console_warn no_loadFn_msg s)
      | Some load \<Rightarrow>
          (Awaiting (load (loads s)),
           s\<lparr>loads := Suc (loads s), trace := trace s @ [LoadCalled]\<rparr>))"

definition cLoad_resume ::
  "(jsval \<Rightarrow> jsval \<Rightarrow> bool) \<Rightarrow> jsval \<Rightarrow> model_state \<Rightarrow> jsval \<times> model_state" where
  "cLoad_resume differs loadedData s =
     (if truthy loadedData then (loadedData, writable_set differs loadedData s)
      else (JUndefined, s))"

text \<open>A call of \<open>load()\<close> that nothing else interleaves with.\<close>

definition cLoad ::
  "(jsval \<Rightarrow> jsval \<Rightarrow> bool) \<Rightarrow> ModelOptions \<Rightarrow> model_state \<Rightarrow> jsval \<times> model_state" where
  "cLoad differs opts s =
     (case cLoad_call opts s of
        (Returned v, s') \<Rightarrow> (v, s')
      | (Awaiting loadedData, s') \<Rightarrow> cLoad_resume differs loadedData s')"

subsection \<open>cSet, cUpdate\<close>

definition cSet ::
  "(jsval \<Rightarrow> jsval \<Rightarrow> bool) \<Rightarrow> ModelOptions \<Rightarrow> jsval \<Rightarrow> model_state \<Rightarrow> model_state" where
  "cSet differs opts data s =
     (if \<not> truthy data \<and> \<not> flag_on (allowUndefinedData opts)
      then console_trace undefined_data_msg (console_warn undefined_data_msg s)
      else call_saveFn opts data (writable_set differs data s))"

text \<open>
  The callback handed to the primitive's \<open>update\<close> computes the new value and calls the
  save function; only when it has returned does the primitive store and publish. The
  updater is a pure transform, so the callback does not throw.
\<close>

definition cUpdate ::
  "(jsval \<Rightarrow> jsval \<Rightarrow> bool) \<Rightarrow> ModelOptions \<Rightarrow> (jsval \<Rightarrow> jsval) \<Rightarrow> model_state \<Rightarrow> model_state" where
  "cUpdate differs opts updater s =
     snd (writable_update differs
            (\<lambda>v t. let v' = updater v in (Inr v', call_saveFn opts v' t)) s)"

subsection \<open>mutate\<close>

text \<open>
  The \<open>forEach\<close> over the keys of the mutation. The callback's \<open>v\<close> is the very object
  the store holds, so the loop reads \<open>val\<close> and an assignment updates \<open>val\<close> in place; an
  exception leaves the state as it is at the throw.
\<close>

fun mutate_keys :: "(string \<times> jsval) list \<Rightarrow> model_state \<Rightarrow> error option \<times> model_state" where
  "mutate_keys [] s = (None, s)"
| "mutate_keys ((k, x) # es) s =
     (case has_property k (val s) of
        Inl e \<Rightarrow> (Some e, s)
      | Inr present \<Rightarrow>
          if present then
            (case set_property k x (val s) of
               Inl e \<Rightarrow> (Some e, s)
             | Inr v \<Rightarrow> mutate_keys es (s\<lparr>val := v\<rparr>))
          else mutate_keys es (console_trace (unknown_key_msg k) (console_warn (unknown_key_msg k) s)))"

definition mutate ::
  "(jsval \<Rightarrow> jsval \<Rightarrow> bool) \<Rightarrow> ModelOptions \<Rightarrow> jsval \<Rightarrow> model_state \<Rightarrow> error option \<times> model_state" where
  "mutate differs opts mutation s =
     (case mutateFn opts of
        Some custom \<Rightarrow> (None, custom mutation s)
      | None \<Rightarrow>
          writable_update differs
            (\<lambda>v t. case own_entries mutation of
                     Inl e \<Rightarrow> (Inl e, t)
                   | Inr es \<Rightarrow>
                       (case mutate_keys es t of
                          (Some e, t') \<Rightarrow> (Inl e, t')
                        | (None, t') \<Rightarrow> (Inr (val t'), call_saveFn opts (val t') t')))
            s)"

subsection \<open>Initialization\<close>

definition settle :: "jsval \<Rightarrow> model_state \<Rightarrow> model_state" where
  "settle l s = (if truthy l then s\<lparr>initialized := Ready l\<rparr> else s\<lparr>initialized := Failed\<rparr>)"

text \<open>The executor of \<open>INITIALIZED\<close> up to its \<open>await\<close>, as it runs inside \<open>createModel\<close>.\<close>

definition INITIALIZED_start :: "ModelOptions \<Rightarrow> model_state \<Rightarrow> model_state" where
  "INITIALIZED_start opts s =
     (if flag_on (loadOnCreate opts) \<and> loadFn opts \<noteq> None then
        (case cLoad_call opts s of
           (Returned l, s') \<Rightarrow> settle l s'
         | (Awaiting loadedData, s') \<Rightarrow> s'\<lparr>initialized := Loading loadedData\<rparr>)
      else s\<lparr>initialized := Ready (JObj [])\<rparr>)"

text \<open>The rest of the executor, when the awaited load resolves.\<close>

definition INITIALIZED_resume :: "(jsval \<Rightarrow> jsval \<Rightarrow> bool) \<Rightarrow> model_state \<Rightarrow> model_state" where
  "INITIALIZED_resume differs s =
     (case initialized s of
        Loading loadedData \<Rightarrow>
          (case cLoad_resume differs loadedData s of (l, s') \<Rightarrow> settle l s')
      | _ \<Rightarrow> s)"

definition createModel :: "ModelOptions option \<Rightarrow> ModelOptions \<times> model_state" where
  "createModel options =
     (let opts = merge_opts options in (opts, INITIALIZED_start opts writable))"

text \<open>\<open>get\<close>: a snapshot of the current value.\<close>

definition get_value :: "model_state \<Rightarrow> jsval" where
  "get_value s = val s"

section \<open>Callers and observers\<close>

text \<open>
  A caller's sequence of operations. An exception thrown by \<open>mutate\<close> reaches the
  caller; the container goes on from the state the call left behind. A \<open>load()\<close> is run
  to its end before the next operation.
\<close>

datatype operation = Set jsval | Update "jsval \<Rightarrow> jsval" | Mutate jsval | Load

fun apply_operation ::
  "(jsval \<Rightarrow> jsval \<Rightarrow> bool) \<Rightarrow> ModelOptions \<Rightarrow> operation \<Rightarrow> model_state \<Rightarrow> model_state" where
  "apply_operation differs opts (Set v) s = cSet differs opts v s"
| "apply_operation differs opts (Update f) s = cUpdate differs opts f s"
| "apply_operation differs opts (Mutate m) s = snd (mutate differs opts m s)"
| "apply_operation differs opts Load s = snd (cLoad differs opts s)"

fun run ::
  "(jsval \<Rightarrow> jsval \<Rightarrow> bool) \<Rightarrow> ModelOptions \<Rightarrow> operation list \<Rightarrow> model_state \<Rightarrow> model_state" where
  "run differs opts [] s = s"
| "run differs opts (op # ops) s = run differs opts ops (apply_operation differs opts op s)"

text \<open>The arguments of the calls of the save function, in order.\<close>

fun saved_values :: "event list \<Rightarrow> jsval list" where
  "saved_values [] = []"
| "saved_values (Saved v # es) = v # saved_values es"
| "saved_values (e # es) = saved_values es"

subsection \<open>Inputs for the concrete runs\<close>

definition no_options :: ModelOptions where
  "no_options =
     \<lparr>allowUndefinedData = None, loadOnCreate = None, saveFn = None, loadFn = None,
      mutateFn = None, onInitialized = None\<rparr>"

definition example_saveFn :: "jsval \<Rightarrow> save_result" where
  "example_saveFn v = OpResult"

definition saving_options :: ModelOptions where
  "saving_options = no_options\<lparr>saveFn := Some example_saveFn\<rparr>"

text \<open>A container that saves, with one subscriber, after \<open>set({x: 1})\<close>.\<close>

definition after_set_x1 :: model_state where
  "after_set_x1 =
     cSet always_publish (fst (createModel (Some saving_options))) (JObj [(''x'', JNum 1)])
       (subscribe 0 (snd (createModel (Some saving_options))))"

definition example_loadFn :: "nat \<Rightarrow> jsval" where
  "example_loadFn n = JObj [(''a'', JNum 1)]"

definition absent_loadFn :: "nat \<Rightarrow> jsval" where
  "absent_loadFn n = JUndefined"

definition example_mutateFn :: "jsval \<Rightarrow> model_state \<Rightarrow> model_state" where
  "example_mutateFn m s = s\<lparr>trace := trace s @ [Warn ''custom merge'']\<rparr>"

definition clear_value :: "jsval \<Rightarrow> jsval" where
  "clear_value v = JUndefined"

definition to_one :: "jsval \<Rightarrow> jsval" where
  "to_one v = JNum 1"

section \<open>Facts about the parts\<close>

lemmas eval_defs =
  has_property_def set_property_def put_own_def array_index_def digit_value_def
  Object_prototype_methods_def createModel_def merge_opts_def spread_def later_wins_def DEFAULT_OPTS_def flag_on_def
  INITIALIZED_start_def INITIALIZED_resume_def settle_def cLoad_call_def cLoad_resume_def
  cLoad_def cSet_def cUpdate_def mutate_def call_saveFn_def writable_def writable_set_def
  writable_update_def
  subscribe_def console_warn_def console_trace_def always_publish_def publish_changes_def
  no_options_def saving_options_def after_set_x1_def example_loadFn_def absent_loadFn_def example_saveFn_def example_mutateFn_def
  clear_value_def to_one_def Let_def

text \<open>The defaults are spread last, so they replace what the caller gave.\<close>

lemma merge_opts_flags:
  "allowUndefinedData (merge_opts options) = Some False"
  "loadOnCreate (merge_opts options) = Some True"
  by (simp_all add: merge_opts_def spread_def later_wins_def DEFAULT_OPTS_def split: option.splits)

lemma merge_opts_functions:
  "saveFn (merge_opts (Some given)) = saveFn given"
  "loadFn (merge_opts (Some given)) = loadFn given"
  "mutateFn (merge_opts (Some given)) = mutateFn given"
  by (simp_all add: merge_opts_def spread_def later_wins_def DEFAULT_OPTS_def split: option.splits)

lemma saved_values_append: "saved_values (xs @ ys) = saved_values xs @ saved_values ys"
  by (induction xs rule: saved_values.induct) simp_all

lemma saved_values_Notify: "saved_values (map (\<lambda>i. Notify i v) xs) = []"
  by (induction xs) simp_all

lemma val_writable_set:
  "val (writable_set differs v s) = (if differs (val s) v then v else val s)"
  by (simp add: writable_set_def)

lemma trace_writable_set:
  "trace (writable_set differs v s) =
     trace s @ (if differs (val s) v then map (\<lambda>i. Notify i v) (subscribers s) else [])"
  by (simp add: writable_set_def)

lemma val_call_saveFn: "val (call_saveFn opts v s) = val s"
  by (simp add: call_saveFn_def Let_def split: option.splits)

lemma trace_call_saveFn:
  "trace (call_saveFn opts v s) =
     trace s @ (case saveFn opts of None \<Rightarrow> [] | Some save \<Rightarrow> [Saved v])"
  by (simp add: call_saveFn_def Let_def split: option.splits)

lemma subscribers_call_saveFn: "subscribers (call_saveFn opts v s) = subscribers s"
  by (simp add: call_saveFn_def Let_def split: option.splits)

text \<open>The two write paths that go through the primitive's \<open>update\<close>, unfolded.\<close>

lemma cUpdate_eq:
  "cUpdate differs opts updater s =
     writable_set differs (updater (val s)) (call_saveFn opts (updater (val s)) s)"
  by (simp add: cUpdate_def writable_update_def Let_def)

lemma mutate_custom_eq:
  "mutateFn opts = Some custom \<Longrightarrow> mutate differs opts m s = (None, custom m s)"
  by (simp add: mutate_def)

lemma mutate_default_eq:
  "mutateFn opts = None \<Longrightarrow>
   mutate differs opts m s =
     (case own_entries m of
        Inl e \<Rightarrow> (Some e, s)
      | Inr es \<Rightarrow>
          (case mutate_keys es s of
             (Some e, s') \<Rightarrow> (Some e, s')
           | (None, s') \<Rightarrow>
               (None, writable_set differs (val s') (call_saveFn opts (val s') s'))))"
  by (simp add: mutate_def writable_update_def split: sum.splits prod.splits option.splits)

subsection \<open>The loop over the keys\<close>

lemma has_property_object: "has_property k v = Inr b \<Longrightarrow> is_object v"
  by (simp add: has_property_def split: if_splits)

lemma set_property_object: "set_property k x v = Inr v' \<Longrightarrow> is_object v'"
  by (cases v) (auto simp: set_property_def split: if_splits)

lemma is_object_truthy: "is_object v \<Longrightarrow> truthy v"
  by (cases v) simp_all

text \<open>One turn of the loop, by what the \<open>in\<close> test and the assignment give.\<close>

lemma mutate_keys_throw:
  "has_property k (val s) = Inl e \<Longrightarrow> mutate_keys ((k, x) # es) s = (Some e, s)"
  by simp

lemma mutate_keys_assign:
  "has_property k (val s) = Inr True \<Longrightarrow> set_property k x (val s) = Inr v \<Longrightarrow>
   mutate_keys ((k, x) # es) s = mutate_keys es (s\<lparr>val := v\<rparr>)"
  by simp

lemma mutate_keys_skip:
  "has_property k (val s) = Inr False \<Longrightarrow>
   mutate_keys ((k, x) # es) s =
     mutate_keys es (console_trace (unknown_key_msg k) (console_warn (unknown_key_msg k) s))"
  by simp

lemma set_property_total:
  "has_property k v = Inr b \<Longrightarrow> \<exists>v'. set_property k x v = Inr v'"
  by (simp add: has_property_def set_property_def split: if_splits)

text \<open>Whatever the current value, the loop leaves it alone or leaves an object.\<close>

lemma mutate_keys_val:
  "mutate_keys es s = (r, s') \<Longrightarrow> val s' = val s \<or> truthy (val s')"
proof (induction es arbitrary: s)
  case Nil
  then show ?case by simp
next
  case (Cons e es)
  obtain k x where e: "e = (k, x)" by (cases e)
  show ?case
  proof (cases "has_property k (val s)")
    case (Inl err)
    from Cons.prems show ?thesis unfolding e mutate_keys_throw[OF Inl] by simp
  next
    case (Inr present)
    show ?thesis
    proof (cases present)
      case True
      from set_property_total[OF Inr] obtain v where v: "set_property k x (val s) = Inr v"
        by blast
      have "truthy v" using v by (intro is_object_truthy) (rule set_property_object)
      moreover have "mutate_keys es (s\<lparr>val := v\<rparr>) = (r, s')"
        using Cons.prems Inr True v unfolding e by (simp only: mutate_keys_assign)
      from Cons.IH[OF this] have "val s' = v \<or> truthy (val s')" by simp
      ultimately show ?thesis by auto
    next
      case False
      have "mutate_keys es (console_trace (unknown_key_msg k) (console_warn (unknown_key_msg k) s))
              = (r, s')"
        using Cons.prems Inr False unfolding e by (simp only: mutate_keys_skip)
      from Cons.IH[OF this] show ?thesis by (simp add: console_trace_def console_warn_def)
    qed
  qed
qed

text \<open>The loop itself never calls the save function.\<close>

lemma mutate_keys_saved:
  "mutate_keys es s = (r, s') \<Longrightarrow> saved_values (trace s') = saved_values (trace s)"
proof (induction es arbitrary: s)
  case Nil
  then show ?case by simp
next
  case (Cons e es)
  obtain k x where e: "e = (k, x)" by (cases e)
  show ?case
  proof (cases "has_property k (val s)")
    case (Inl err)
    from Cons.prems show ?thesis unfolding e mutate_keys_throw[OF Inl] by simp
  next
    case (Inr present)
    show ?thesis
    proof (cases present)
      case True
      from set_property_total[OF Inr] obtain v where v: "set_property k x (val s) = Inr v"
        by blast
      have "mutate_keys es (s\<lparr>val := v\<rparr>) = (r, s')"
        using Cons.prems Inr True v unfolding e by (simp only: mutate_keys_assign)
      from Cons.IH[OF this] show ?thesis by simp
    next
      case False
      have "mutate_keys es (console_trace (unknown_key_msg k) (console_warn (unknown_key_msg k) s))
              = (r, s')"
        using Cons.prems Inr False unfolding e by (simp only: mutate_keys_skip)
      from Cons.IH[OF this] show ?thesis
        by (simp add: console_trace_def console_warn_def saved_values_append)
    qed
  qed
qed

subsection \<open>One operation and the current value\<close>

lemma apply_operation_val:
  assumes "\<not> flag_on (allowUndefinedData opts)"
    and "\<And>custom m t. mutateFn opts = Some custom \<Longrightarrow>
           val (custom m t) = val t \<or> truthy (val (custom m t))"
    and "\<And>f v. op = Update f \<Longrightarrow> truthy (f v)"
  shows "val (apply_operation differs opts op s) = val s
       \<or> truthy (val (apply_operation differs opts op s))"
proof (cases op)
  case (Set v)
  then show ?thesis using assms(1)
    by (simp add: cSet_def console_trace_def console_warn_def val_call_saveFn val_writable_set)
next
  case (Update f)
  then show ?thesis using assms(3)
    by (simp add: cUpdate_eq val_call_saveFn val_writable_set)
next
  case (Mutate m)
  show ?thesis
  proof (cases "mutateFn opts")
    case (Some custom)
    then show ?thesis using assms(2) Mutate by (simp add: mutate_custom_eq)
  next
    case None
    show ?thesis
    proof (cases "own_entries m")
      case (Inl e)
      then show ?thesis using None Mutate by (simp add: mutate_default_eq)
    next
      case (Inr es)
      obtain r s' where mk: "mutate_keys es s = (r, s')" by (cases "mutate_keys es s")
      from mutate_keys_val[OF mk] show ?thesis using None Mutate Inr mk
        by (cases r) (auto simp: mutate_default_eq val_call_saveFn val_writable_set)
    qed
  qed
next
  case Load
  then show ?thesis
    by (auto simp: cLoad_def cLoad_call_def cLoad_resume_def console_warn_def val_writable_set
        split: option.splits)
qed

section \<open>The claims\<close>

subsection \<open>C1: construction with \<open>loadOnCreate = false\<close>\<close>

text \<open>
  Claim C1 says that a container built with \<open>loadOnCreate = false\<close> and a load function
  is ready at once and never calls the load function during initialization. The code
  spreads the defaults over the options, so \<open>loadOnCreate\<close> is \<open>true\<close> whatever the caller
  wrote: with \<open>{loadOnCreate: false, loadFn}\<close> the load function has been called once when
  \<open>createModel\<close> returns, and readiness is still pending on it.
\<close>

theorem loadOnCreate_false_still_loads:
  "snd (createModel (Some (no_options\<lparr>loadOnCreate := Some False, loadFn := Some example_loadFn\<rparr>)))
     = \<lparr>val = JUndefined, subscribers = [], trace = [LoadCalled], loads = 1,
        initialized = Loading (JObj [(''a'', JNum 1)])\<rparr>"
  by (simp add: eval_defs)

subsection \<open>C2: \<open>set\<close> of an empty value with \<open>allowUndefinedData = true\<close>\<close>

text \<open>
  Claim C2 says that with \<open>allowUndefinedData = true\<close> a \<open>set\<close> of an empty value commits
  it, notifies and saves. In the code the default \<open>false\<close> replaces the caller's \<open>true\<close>:
  on a container built with \<open>{allowUndefinedData: true, saveFn}\<close> and one subscriber,
  \<open>set(undefined)\<close> only writes the warning; nothing is published and nothing is saved.
\<close>

theorem allowUndefinedData_true_still_rejects:
  "cSet always_publish
     (fst (createModel (Some (no_options\<lparr>allowUndefinedData := Some True,
                                         saveFn := Some example_saveFn\<rparr>))))
     JUndefined
     (subscribe 0 (snd (createModel (Some (no_options\<lparr>allowUndefinedData := Some True,
                                                      saveFn := Some example_saveFn\<rparr>)))))
   = \<lparr>val = JUndefined, subscribers = [0],
      trace = [Notify 0 JUndefined, Warn undefined_data_msg, ConsoleTrace undefined_data_msg],
      loads = 0, initialized = Ready (JObj [])\<rparr>"
  by (simp add: eval_defs)

subsection \<open>C3: the value is not replaced by an empty one\<close>

text \<open>
  Claim C3, as amended: on a container whose \<open>allowUndefinedData\<close> is off, after any
  sequence of \<open>set\<close>, \<open>load\<close>, default \<open>mutate\<close> and \<open>update\<close> with transforms that return
  populated values, the current value is the one the sequence started from or a
  populated one. \<open>update\<close> has no check of its own: it commits whatever the transform
  returns. A custom merge function is caller code, and is assumed to keep the property.
\<close>

theorem value_stays_populated:
  assumes "\<not> flag_on (allowUndefinedData opts)"
    and "\<And>custom m t. mutateFn opts = Some custom \<Longrightarrow>
           val (custom m t) = val t \<or> truthy (val (custom m t))"
    and "\<And>f v. Update f \<in> set ops \<Longrightarrow> truthy (f v)"
  shows "val (run differs opts ops s) = val s \<or> truthy (val (run differs opts ops s))"
  using assms(3)
proof (induction ops arbitrary: s)
  case Nil
  then show ?case by simp
next
  case (Cons op ops)
  have step: "val (apply_operation differs opts op s) = val s
      \<or> truthy (val (apply_operation differs opts op s))"
    using assms(1,2) Cons.prems by (intro apply_operation_val) auto
  have rest: "val (run differs opts ops (apply_operation differs opts op s))
        = val (apply_operation differs opts op s)
      \<or> truthy (val (run differs opts ops (apply_operation differs opts op s)))"
    using Cons.prems by (intro Cons.IH) auto
  from step rest show ?case by auto
qed

text \<open>
  A run of the theorem: \<open>set({a: 1})\<close>, \<open>set(undefined)\<close>, \<open>mutate({a: 2, b: 3})\<close>,
  \<open>load()\<close> without a load function, \<open>update\<close> to \<open>1\<close>.
\<close>

theorem value_stays_populated_witness:
  "\<not> flag_on (allowUndefinedData (fst (createModel None)))
   \<and> mutateFn (fst (createModel None)) = None
   \<and> (\<forall>v. truthy (to_one v))
   \<and> val (run publish_changes (fst (createModel None))
          [Set (JObj [(''a'', JNum 1)]), Set JUndefined,
           Mutate (JObj [(''a'', JNum 2), (''b'', JNum 3)]), Load, Update to_one]
          (snd (createModel None))) = JNum 1"
proof -
  let ?opts = "fst (createModel None)"
  let ?ops = "[Set (JObj [(''a'', JNum 1)]), Set JUndefined,
               Mutate (JObj [(''a'', JNum 2), (''b'', JNum 3)]), Load, Update to_one]"
  have h1: "\<not> flag_on (allowUndefinedData ?opts)" by (simp add: eval_defs)
  have h2: "val (custom m t) = val t \<or> truthy (val (custom m t))"
    if "mutateFn ?opts = Some custom" for custom m t
    using that by (simp add: eval_defs)
  have h3: "truthy (f v)" if "Update f \<in> set ?ops" for f v
    using that by (auto simp: to_one_def)
  have "val (run publish_changes ?opts ?ops (snd (createModel None))) = val (snd (createModel None))
      \<or> truthy (val (run publish_changes ?opts ?ops (snd (createModel None))))"
    using h1 h2 h3 by (rule value_stays_populated)
  then show ?thesis by (simp add: eval_defs)
qed

text \<open>
  Claim C3 as stated fails on \<open>update\<close>: after \<open>set({a: 1})\<close> the value is populated, and
  \<open>update\<close> with a transform that returns \<open>undefined\<close> replaces it by \<open>undefined\<close>.
\<close>

theorem update_commits_empty_value:
  "val (run always_publish
          (fst (createModel (Some (no_options\<lparr>allowUndefinedData := Some False\<rparr>))))
          [Set (JObj [(''a'', JNum 1)])]
          (snd (createModel (Some (no_options\<lparr>allowUndefinedData := Some False\<rparr>)))))
     = JObj [(''a'', JNum 1)]
   \<and> val (run always_publish
          (fst (createModel (Some (no_options\<lparr>allowUndefinedData := Some False\<rparr>))))
          [Set (JObj [(''a'', JNum 1)]), Update clear_value]
          (snd (createModel (Some (no_options\<lparr>allowUndefinedData := Some False\<rparr>)))))
     = JUndefined"
  by (simp add: eval_defs)

subsection \<open>C4: one save per commit, with the committed value\<close>

text \<open>
  Claim C4: with a save function configured, every change committed by \<open>set\<close>, \<open>update\<close>
  or the default \<open>mutate\<close> calls the save function exactly once, with the value the store
  holds after the commit. The primitive may skip a set only when the cell already holds
  that value.
\<close>

theorem save_once_with_committed_value:
  assumes save: "saveFn opts = Some save"
    and faithful: "\<And>a b. differs a b \<or> a = b"
  shows "(truthy v \<or> flag_on (allowUndefinedData opts) \<longrightarrow>
            val (cSet differs opts v s) = v
          \<and> saved_values (trace (cSet differs opts v s)) = saved_values (trace s) @ [v])
       \<and> val (cUpdate differs opts f s) = f (val s)
       \<and> saved_values (trace (cUpdate differs opts f s)) = saved_values (trace s) @ [f (val s)]
       \<and> (mutateFn opts = None \<and> mutate differs opts m s = (None, s') \<longrightarrow>
            saved_values (trace s') = saved_values (trace s) @ [val s'])"
proof (intro conjI impI)
  assume "truthy v \<or> flag_on (allowUndefinedData opts)"
  then show "val (cSet differs opts v s) = v"
    using faithful[of "val s" v] by (auto simp: cSet_def val_call_saveFn val_writable_set)
next
  assume "truthy v \<or> flag_on (allowUndefinedData opts)"
  then show "saved_values (trace (cSet differs opts v s)) = saved_values (trace s) @ [v]"
    using save
    by (auto simp: cSet_def trace_call_saveFn trace_writable_set saved_values_append
        saved_values_Notify)
next
  show "val (cUpdate differs opts f s) = f (val s)"
    using faithful[of "val s" "f (val s)"]
    by (auto simp: cUpdate_eq val_call_saveFn val_writable_set)
next
  show "saved_values (trace (cUpdate differs opts f s)) = saved_values (trace s) @ [f (val s)]"
    using save
    by (simp add: cUpdate_eq trace_call_saveFn trace_writable_set saved_values_append
        saved_values_Notify)
next
  assume "mutateFn opts = None \<and> mutate differs opts m s = (None, s')"
  then have a: "mutateFn opts = None" "mutate differs opts m s = (None, s')" by simp_all
  show "saved_values (trace s') = saved_values (trace s) @ [val s']"
  proof (cases "own_entries m")
    case (Inl e)
    with a show ?thesis by (simp add: mutate_default_eq)
  next
    case (Inr es)
    obtain r t where mk: "mutate_keys es s = (r, t)" by (cases "mutate_keys es s")
    with a Inr have r: "r = None"
      and s': "s' = writable_set differs (val t) (call_saveFn opts (val t) t)"
      by (auto simp: mutate_default_eq split: option.splits)
    from mutate_keys_saved[OF mk] show ?thesis using save
      by (simp add: s' trace_call_saveFn trace_writable_set subscribers_call_saveFn
          val_call_saveFn val_writable_set saved_values_append saved_values_Notify)
  qed
qed

text \<open>
  A run of the theorem on the container that holds \<open>{x: 1}\<close>: \<open>set({x: 5})\<close>, \<open>update\<close> to
  \<open>1\<close>, and \<open>mutate({x: 2, y: 9})\<close>, which saves \<open>{x: 2}\<close>.
\<close>

theorem save_once_with_committed_value_witness:
  "saveFn (fst (createModel (Some saving_options))) = Some example_saveFn
   \<and> (\<forall>a b. always_publish a b \<or> a = b)
   \<and> truthy (JObj [(''x'', JNum 5)])
   \<and> saved_values (trace after_set_x1) = [JObj [(''x'', JNum 1)]]
   \<and> val (cSet always_publish (fst (createModel (Some saving_options)))
            (JObj [(''x'', JNum 5)]) after_set_x1) = JObj [(''x'', JNum 5)]
   \<and> saved_values (trace (cSet always_publish (fst (createModel (Some saving_options)))
            (JObj [(''x'', JNum 5)]) after_set_x1))
       = [JObj [(''x'', JNum 1)], JObj [(''x'', JNum 5)]]
   \<and> val (cUpdate always_publish (fst (createModel (Some saving_options))) to_one after_set_x1)
       = JNum 1
   \<and> saved_values (trace (cUpdate always_publish (fst (createModel (Some saving_options)))
            to_one after_set_x1))
       = [JObj [(''x'', JNum 1)], JNum 1]
   \<and> mutateFn (fst (createModel (Some saving_options))) = None
   \<and> mutate always_publish (fst (createModel (Some saving_options)))
        (JObj [(''x'', JNum 2), (''y'', JNum 9)]) after_set_x1
       = (None,
          \<lparr>val = JObj [(''x'', JNum 2)], subscribers = [0],
           trace = [Notify 0 JUndefined, Notify 0 (JObj [(''x'', JNum 1)]),
                    Saved (JObj [(''x'', JNum 1)]),
                    Warn (unknown_key_msg ''y''), ConsoleTrace (unknown_key_msg ''y''),
                    Saved (JObj [(''x'', JNum 2)]), Notify 0 (JObj [(''x'', JNum 2)])],
           loads = 0, initialized = Ready (JObj [])\<rparr>)
   \<and> saved_values
        [Notify 0 JUndefined, Notify 0 (JObj [(''x'', JNum 1)]),
         Saved (JObj [(''x'', JNum 1)]),
         Warn (unknown_key_msg ''y''), ConsoleTrace (unknown_key_msg ''y''),
         Saved (JObj [(''x'', JNum 2)]), Notify 0 (JObj [(''x'', JNum 2)])]
       = [JObj [(''x'', JNum 1)], JObj [(''x'', JNum 2)]]"
proof -
  have h1: "saveFn (fst (createModel (Some saving_options))) = Some example_saveFn"
    by (simp add: eval_defs)
  have h2: "always_publish a b \<or> a = b" for a b
    by (simp add: always_publish_def)
  show ?thesis
    using save_once_with_committed_value [OF h1 h2, of "JObj [(''x'', JNum 5)]" after_set_x1
        to_one "JObj [(''x'', JNum 2), (''y'', JNum 9)]"]
    by (simp add: eval_defs)
qed

subsection \<open>C5: \<open>set\<close> of an empty value is refused\<close>

text \<open>
  Claim C5: when \<open>allowUndefinedData\<close> is off, \<open>set\<close> of an empty value returns normally
  and changes nothing but the console: the value, the subscribers and the readiness are
  as before, nobody is notified, the save function is not called, and the warning is
  written with \<open>console.warn\<close> and \<open>console.trace\<close>.
\<close>

theorem set_empty_value_is_refused:
  assumes "\<not> truthy v" and "\<not> flag_on (allowUndefinedData opts)"
  shows "cSet differs opts v s =
           s\<lparr>trace := trace s @ [Warn undefined_data_msg, ConsoleTrace undefined_data_msg]\<rparr>"
  using assms by (simp add: cSet_def console_warn_def console_trace_def)

theorem set_empty_value_is_refused_witness:
  "\<not> truthy (JStr [])
   \<and> \<not> flag_on (allowUndefinedData (fst (createModel (Some saving_options))))
   \<and> cSet always_publish (fst (createModel (Some saving_options))) (JStr []) after_set_x1
       = \<lparr>val = JObj [(''x'', JNum 1)], subscribers = [0],
          trace = [Notify 0 JUndefined, Notify 0 (JObj [(''x'', JNum 1)]),
                   Saved (JObj [(''x'', JNum 1)]),
                   Warn undefined_data_msg, ConsoleTrace undefined_data_msg],
          loads = 0, initialized = Ready (JObj [])\<rparr>"
proof -
  have h1: "\<not> truthy (JStr [])" by simp
  have h2: "\<not> flag_on (allowUndefinedData (fst (createModel (Some saving_options))))"
    by (simp add: eval_defs)
  show ?thesis
    using set_empty_value_is_refused [OF h1 h2, of always_publish after_set_x1]
    by (simp add: eval_defs)
qed

subsection \<open>C6: \<open>update\<close>\<close>

text \<open>
  Claim C6, as amended: for every transform \<open>f\<close>, \<open>update(f)\<close> first calls the save
  function, if one is configured, with \<open>f(current)\<close>, and then commits \<open>f(current)\<close> and
  notifies the subscribers with it, in the order they subscribed; a primitive that does
  not publish an unchanged value notifies nobody in that case.
\<close>

theorem update_saves_then_commits_and_notifies:
  assumes "\<And>a b. differs a b \<or> a = b"
  shows "val (cUpdate differs opts f s) = f (val s)
       \<and> trace (cUpdate differs opts f s) =
           trace s
           @ (case saveFn opts of None \<Rightarrow> [] | Some save \<Rightarrow> [Saved (f (val s))])
           @ (if differs (val s) (f (val s))
              then map (\<lambda>i. Notify i (f (val s))) (subscribers s) else [])"
  using assms[of "val s" "f (val s)"]
  by (auto simp: cUpdate_eq val_call_saveFn val_writable_set trace_call_saveFn
      trace_writable_set subscribers_call_saveFn)

theorem update_saves_then_commits_and_notifies_witness:
  "(\<forall>a b. publish_changes a b \<or> a = b)
   \<and> val (cUpdate publish_changes (fst (createModel (Some saving_options))) to_one after_set_x1)
       = JNum 1
   \<and> trace (cUpdate publish_changes (fst (createModel (Some saving_options))) to_one after_set_x1)
       = [Notify 0 JUndefined, Notify 0 (JObj [(''x'', JNum 1)]), Saved (JObj [(''x'', JNum 1)]),
          Saved (JNum 1), Notify 0 (JNum 1)]"
proof -
  have h: "publish_changes a b \<or> a = b" for a b
    by (simp add: publish_changes_def)
  show ?thesis
    using update_saves_then_commits_and_notifies
      [OF h, of "fst (createModel (Some saving_options))" to_one after_set_x1]
    by (simp add: eval_defs)
qed

text \<open>
  Claim C6 as stated fails on the order: with a save function and one subscriber, the
  call \<open>Saved 1\<close> comes before the notification \<open>Notify 0 1\<close>.
\<close>

theorem update_saves_before_notifying:
  "trace (cUpdate always_publish (fst (createModel (Some saving_options))) to_one
            (subscribe 0 (snd (createModel (Some saving_options)))))
     = [Notify 0 JUndefined, Saved (JNum 1), Notify 0 (JNum 1)]"
  by (simp add: eval_defs)

subsection \<open>C7: the default \<open>mutate\<close> and the keys of the current value\<close>

text \<open>
  Claim C7 says that the default \<open>mutate(p)\<close> overwrites exactly the keys of \<open>p\<close> that the
  current value already has, and that every other key of \<open>p\<close> is skipped with a warning
  and never appears in the result. The code decides with \<open>k in v\<close>, which is also true
  for a member inherited from \<open>Object.prototype\<close>. On the container that holds \<open>{x: 1}\<close>,
  \<open>mutate({toString: 7})\<close> writes no warning, creates the key \<open>toString\<close>, and saves and
  publishes \<open>{x: 1, toString: 7}\<close>.
\<close>

theorem default_mutate_creates_inherited_key:
  "mutate always_publish (fst (createModel (Some saving_options)))
     (JObj [(''toString'', JNum 7)]) after_set_x1
   = (None,
      \<lparr>val = JObj [(''x'', JNum 1), (''toString'', JNum 7)], subscribers = [0],
       trace = [Notify 0 JUndefined, Notify 0 (JObj [(''x'', JNum 1)]),
                Saved (JObj [(''x'', JNum 1)]),
                Saved (JObj [(''x'', JNum 1), (''toString'', JNum 7)]),
                Notify 0 (JObj [(''x'', JNum 1), (''toString'', JNum 7)])],
       loads = 0, initialized = Ready (JObj [])\<rparr>)"
  by (simp add: eval_defs)

subsection \<open>C8: a custom merge function\<close>

text \<open>
  Claim C8: when the options carry a custom merge function, \<open>mutate\<close> returns normally
  and the state after the call is the state the custom function left: the container
  itself stores nothing, publishes nothing and does not call the save function.
\<close>

theorem custom_mutate_delegates:
  assumes "mutateFn given = Some custom"
  shows "mutate differs (fst (createModel (Some given))) m s = (None, custom m s)"
  using assms by (simp add: mutate_custom_eq createModel_def Let_def merge_opts_functions)

theorem custom_mutate_delegates_witness:
  "mutateFn (saving_options\<lparr>mutateFn := Some example_mutateFn\<rparr>) = Some example_mutateFn
   \<and> mutate always_publish
       (fst (createModel (Some (saving_options\<lparr>mutateFn := Some example_mutateFn\<rparr>))))
       (JObj [(''x'', JNum 2)]) after_set_x1
     = (None,
        \<lparr>val = JObj [(''x'', JNum 1)], subscribers = [0],
         trace = [Notify 0 JUndefined, Notify 0 (JObj [(''x'', JNum 1)]),
                  Saved (JObj [(''x'', JNum 1)]), Warn ''custom merge''],
         loads = 0, initialized = Ready (JObj [])\<rparr>)"
proof -
  have h: "mutateFn (saving_options\<lparr>mutateFn := Some example_mutateFn\<rparr>) = Some example_mutateFn"
    by simp
  show ?thesis
    using custom_mutate_delegates [OF h, of always_publish "JObj [(''x'', JNum 2)]" after_set_x1]
    by (simp add: eval_defs)
qed

subsection \<open>C9: initialization with a load\<close>

text \<open>
  Claim C9: built with a load function and \<open>loadOnCreate\<close> not switched off, the
  container has called the load function once when \<open>createModel\<close> returns and readiness
  is pending on it. When the load resolves with nothing in between: a populated value
  becomes the current value and the value readiness resolves to; an empty one rejects
  readiness and leaves the store as it was, with no value committed.
\<close>

theorem auto_load_settles_readiness:
  assumes "loadFn given = Some load" and "loadOnCreate given \<noteq> Some False"
    and "\<And>a b. differs a b \<or> a = b"
  shows "snd (createModel (Some given))
           = \<lparr>val = JUndefined, subscribers = [], trace = [LoadCalled], loads = 1,
              initialized = Loading (load 0)\<rparr>
       \<and> INITIALIZED_resume differs (snd (createModel (Some given)))
           = (if truthy (load 0)
              then \<lparr>val = load 0, subscribers = [], trace = [LoadCalled], loads = 1,
                    initialized = Ready (load 0)\<rparr>
              else \<lparr>val = JUndefined, subscribers = [], trace = [LoadCalled], loads = 1,
                    initialized = Failed\<rparr>)"
proof -
  have created: "snd (createModel (Some given))
           = \<lparr>val = JUndefined, subscribers = [], trace = [LoadCalled], loads = 1,
              initialized = Loading (load 0)\<rparr>"
    using assms(1)
    by (simp add: createModel_def Let_def INITIALIZED_start_def merge_opts_flags
        merge_opts_functions flag_on_def cLoad_call_def writable_def)
  have "differs JUndefined (load 0)" if "truthy (load 0)"
    using assms(3)[of JUndefined "load 0"] that by auto
  then show ?thesis
    unfolding created
    by (simp add: INITIALIZED_resume_def cLoad_resume_def settle_def writable_set_def)
qed

text \<open>A load function that returns \<open>{a: 1}\<close>, and one that returns \<open>undefined\<close>.\<close>

theorem auto_load_settles_readiness_witness:
  "loadFn (no_options\<lparr>loadOnCreate := Some True, loadFn := Some example_loadFn\<rparr>)
     = Some example_loadFn
   \<and> loadOnCreate (no_options\<lparr>loadOnCreate := Some True, loadFn := Some example_loadFn\<rparr>)
     = Some True
   \<and> (\<forall>a b. publish_changes a b \<or> a = b)
   \<and> INITIALIZED_resume publish_changes
       (snd (createModel (Some (no_options\<lparr>loadOnCreate := Some True,
                                           loadFn := Some example_loadFn\<rparr>))))
     = \<lparr>val = JObj [(''a'', JNum 1)], subscribers = [], trace = [LoadCalled], loads = 1,
        initialized = Ready (JObj [(''a'', JNum 1)])\<rparr>
   \<and> INITIALIZED_resume publish_changes
       (snd (createModel (Some (no_options\<lparr>loadFn := Some absent_loadFn\<rparr>))))
     = \<lparr>val = JUndefined, subscribers = [], trace = [LoadCalled], loads = 1,
        initialized = Failed\<rparr>"
proof -
  have h: "publish_changes a b \<or> a = b" for a b
    by (simp add: publish_changes_def)
  have a1: "loadFn (no_options\<lparr>loadOnCreate := Some True, loadFn := Some example_loadFn\<rparr>)
              = Some example_loadFn"
    by simp
  have a2: "loadOnCreate (no_options\<lparr>loadOnCreate := Some True, loadFn := Some example_loadFn\<rparr>)
              \<noteq> Some False"
    by simp
  have b1: "loadFn (no_options\<lparr>loadFn := Some absent_loadFn\<rparr>) = Some absent_loadFn"
    by simp
  have b2: "loadOnCreate (no_options\<lparr>loadFn := Some absent_loadFn\<rparr>) \<noteq> Some False"
    by (simp add: no_options_def)
  have r1: "INITIALIZED_resume publish_changes
       (snd (createModel (Some (no_options\<lparr>loadOnCreate := Some True,
                                           loadFn := Some example_loadFn\<rparr>))))
     = \<lparr>val = JObj [(''a'', JNum 1)], subscribers = [], trace = [LoadCalled], loads = 1,
        initialized = Ready (JObj [(''a'', JNum 1)])\<rparr>"
    using auto_load_settles_readiness [OF a1 a2 h, THEN conjunct2]
    by (simp add: example_loadFn_def)
  have r2: "INITIALIZED_resume publish_changes
       (snd (createModel (Some (no_options\<lparr>loadFn := Some absent_loadFn\<rparr>))))
     = \<lparr>val = JUndefined, subscribers = [], trace = [LoadCalled], loads = 1,
        initialized = Failed\<rparr>"
    using auto_load_settles_readiness [OF b1 b2 h, THEN conjunct2]
    by (simp add: absent_loadFn_def)
  have a3: "loadOnCreate (no_options\<lparr>loadOnCreate := Some True, loadFn := Some example_loadFn\<rparr>)
              = Some True"
    by simp
  have h': "\<forall>a b. publish_changes a b \<or> a = b" using h by blast
  show ?thesis by (intro conjI a1 a3 h' r1 r2)
qed

subsection \<open>C10: the default \<open>mutate\<close> before any value\<close>

text \<open>
  Claim C10: while the current value is still \<open>undefined\<close>, the default \<open>mutate\<close> with a
  descriptor that has at least one key throws a \<open>TypeError\<close> (the \<open>in\<close> test on
  \<open>undefined\<close>); the state is untouched, so no warning is written either.
\<close>

theorem default_mutate_on_absent_value_throws:
  assumes "mutateFn opts = None" and "val s = JUndefined"
    and "own_entries p = Inr es" and "es \<noteq> []"
  shows "mutate differs opts p s = (Some TypeError, s)"
  using assms by (cases es) (auto simp: mutate_default_eq has_property_def)

theorem default_mutate_on_absent_value_throws_witness:
  "mutateFn (fst (createModel None)) = None
   \<and> val (snd (createModel None)) = JUndefined
   \<and> own_entries (JObj [(''a'', JNum 1)]) = Inr [(''a'', JNum 1)]
   \<and> [(''a'', JNum 1)] \<noteq> []
   \<and> mutate always_publish (fst (createModel None)) (JObj [(''a'', JNum 1)])
       (snd (createModel None))
     = (Some TypeError,
        \<lparr>val = JUndefined, subscribers = [], trace = [], loads = 0,
         initialized = Ready (JObj [])\<rparr>)"
proof -
  have h1: "mutateFn (fst (createModel None)) = None" by (simp add: eval_defs)
  have h2: "val (snd (createModel None)) = JUndefined" by (simp add: eval_defs)
  have h3: "own_entries (JObj [(''a'', JNum 1)]) = Inr [(''a'', JNum 1)]" by simp
  have h4: "[(''a'', JNum 1)] \<noteq> []" by simp
  show ?thesis
    using default_mutate_on_absent_value_throws [OF h1 h2 h3 h4, of always_publish]
    by (simp add: eval_defs)
qed

end
